theory Spec2Isabelle
  imports Main "HOL-Library.List_Lexorder" "HOL-Library.Char_ord"
begin

section \<open>Chunked reading: \<open>wetterdienst/util/io.py\<close>\<close>

text \<open>
  \<^verbatim>\<open>
  def read_in_chunks(file_object, chunk_size=1024):
      while True:
          data = file_object.read(chunk_size)
          if not data:
              break
          yield data
  \<close>
  A file object is a state \<open>'s\<close> together with its \<open>read\<close> method, which takes the
  requested size and the state and returns the data read and the new state. The data
  is a list of items (bytes or characters); it is falsy exactly when it is empty.
  The generator is modelled by the list of the chunks it yields; a source whose reads
  never come back empty makes the loop run forever, which is the value \<open>None\<close>.
\<close>

type_synonym ('s, 'a) read_method = "int \<Rightarrow> 's \<Rightarrow> 'a list \<times> 's"

partial_function (option) read_in_chunks ::
  "('s, 'a) read_method \<Rightarrow> int \<Rightarrow> 's \<Rightarrow> 'a list list option" where
  "read_in_chunks rd chunk_size file_object =
     (case rd chunk_size file_object of
        (data, file_object') \<Rightarrow>
          if data = [] then Some []
          else Option.bind (read_in_chunks rd chunk_size file_object')
                 (\<lambda>rest. Some (data # rest)))"

text \<open>The state of the file object after \<open>k\<close> calls of \<open>read\<close>, and what call number
  \<open>k\<close> (counted from \<open>0\<close>) returns.\<close>

fun state_after :: "('s, 'a) read_method \<Rightarrow> int \<Rightarrow> 's \<Rightarrow> nat \<Rightarrow> 's" where
  "state_after rd n s 0 = s"
| "state_after rd n s (Suc k) = state_after rd n (snd (rd n s)) k"

definition nth_read :: "('s, 'a) read_method \<Rightarrow> int \<Rightarrow> 's \<Rightarrow> nat \<Rightarrow> 'a list" where
  "nth_read rd n s k = fst (rd n (state_after rd n s k))"

text \<open>
  The \<open>read\<close> of an in-memory binary stream (\<open>io.BytesIO\<close>), the file object the
  repository itself builds around downloaded content: the state is the content not
  yet read; a negative size reads everything that is left.
\<close>

definition bytes_read :: "('a list, 'a) read_method" where
  "bytes_read sz buf =
     (if sz < 0 then (buf, []) else (take (nat sz) buf, drop (nat sz) buf))"

text \<open>The contract of \<open>read\<close> for a size that is not negative: at most that many
  items come back.\<close>

definition honours_size :: "('s, 'a) read_method \<Rightarrow> bool" where
  "honours_size rd \<longleftrightarrow> (\<forall>m s. 0 \<le> m \<longrightarrow> int (length (fst (rd m s))) \<le> m)"

section \<open>Strings\<close>

text \<open>
  Strings are lists of 8-bit characters. The files and the parameter names handled here
  are ASCII, so \<open>str.lower\<close> and \<open>str.upper\<close> are modelled on the ASCII letters and leave
  every other character as it is.
\<close>

definition lower_char :: "char \<Rightarrow> char" where
  "lower_char c =
     (let n = (of_char c :: nat) in if 65 \<le> n \<and> n \<le> 90 then char_of (n + 32) else c)"

definition upper_char :: "char \<Rightarrow> char" where
  "upper_char c =
     (let n = (of_char c :: nat) in if 97 \<le> n \<and> n \<le> 122 then char_of (n - 32) else c)"

definition str_lower :: "string \<Rightarrow> string" where
  "str_lower s = map lower_char s"

definition str_upper :: "string \<Rightarrow> string" where
  "str_upper s = map upper_char s"

text \<open>\<open>s.strip(chars)\<close> removes the characters of \<open>chars\<close> from both ends of \<open>s\<close>;
  \<open>s[a:b]\<close> for offsets that are not negative.\<close>

definition strip :: "string \<Rightarrow> string \<Rightarrow> string" where
  "strip chars s =
     rev (dropWhile (\<lambda>c. c \<in> set chars) (rev (dropWhile (\<lambda>c. c \<in> set chars) s)))"

definition slice :: "nat \<Rightarrow> nat \<Rightarrow> 'a list \<Rightarrow> 'a list" where
  "slice a b xs = take (b - a) (drop a xs)"

section \<open>Data frames\<close>

text \<open>
  The members of \<open>wetterdienst.metadata.columns.Columns\<close> that the GHCN provider uses
  as column labels. A frame read with \<open>header=None\<close> is labelled by position until the
  labels are assigned.
\<close>

datatype Columns =
  STATION_ID | DATE | PARAMETER | VALUE | QUALITY | LATITUDE | LONGITUDE | HEIGHT | NAME

datatype label = Position nat | Column Columns

text \<open>A cell holds text, a number, or the missing value. A frame is the list of its
  labelled columns, in order.\<close>

datatype cell = Str string | Num int | NaN

type_synonym series = "cell list"

type_synonym frame = "(label \<times> series) list"

datatype error =
  ValueError | AttributeError | KeyError | EmptyDataError | HTTPError | ConnectionError
  | ParserError | ValidationError | LookupError

text \<open>The network calls made so far, by URL, oldest first.\<close>

type_synonym net_log = "string list"

text \<open>\<open>df.iloc[:, :-k]\<close>: all columns but the last \<open>k\<close> (none when there are fewer
  than \<open>k\<close>).\<close>

definition iloc_columns_but_last :: "nat \<Rightarrow> frame \<Rightarrow> frame" where
  "iloc_columns_but_last k df = take (length df - k) df"

text \<open>\<open>df.columns = names\<close>: the assignment raises \<open>ValueError\<close> on a length
  mismatch.\<close>

definition set_columns :: "label list \<Rightarrow> frame \<Rightarrow> error + frame" where
  "set_columns names df =
     (if length names \<noteq> length df then Inl ValueError else Inr (zip names (map snd df)))"

text \<open>\<open>df.loc[:, lab]\<close> read and assigned.\<close>

definition loc_get :: "label \<Rightarrow> frame \<Rightarrow> error + series" where
  "loc_get lab df = (case map_of df lab of None \<Rightarrow> Inl KeyError | Some col \<Rightarrow> Inr col)"

definition loc_set :: "label \<Rightarrow> series \<Rightarrow> frame \<Rightarrow> frame" where
  "loc_set lab new df = map (\<lambda>(l, col). if l = lab then (l, new) else (l, col)) df"

text \<open>
  \<open>Series.str.lower()\<close>. The \<open>.str\<close> accessor raises \<open>AttributeError\<close> on a column that
  is not of text type; a column that \<open>read_csv\<close> produced is of text type exactly when
  it holds some text. Elementwise, text is lowercased and everything else becomes, or
  stays, the missing value.
\<close>

fun is_text :: "cell \<Rightarrow> bool" where
  "is_text (Str s) = True"
| "is_text (Num n) = False"
| "is_text NaN = False"

fun lower_cell :: "cell \<Rightarrow> cell" where
  "lower_cell (Str s) = Str (str_lower s)"
| "lower_cell (Num n) = NaN"
| "lower_cell NaN = NaN"

definition series_str_lower :: "series \<Rightarrow> error + series" where
  "series_str_lower col =
     (if list_ex is_text col then Inr (map lower_cell col) else Inl AttributeError)"

section \<open>Station listing: \<open>NoaaGhcnRequest._all\<close>\<close>

text \<open>
  \<open>pandas.read_fwf(file, dtype=str, header=None, colspecs=...)\<close>: every line is cut at
  the column offsets and each field is stripped of newline, carriage return, tab and
  space; lines whose fields are all blank are skipped; a file with no line left raises
  \<open>EmptyDataError\<close>; with \<open>dtype=str\<close> a field stays text, unless it is one of the
  strings that pandas reads as the missing value.
\<close>

definition fwf_delimiter :: string where
  "fwf_delimiter = [CHR 0x0A, CHR 0x0D, CHR 0x09, CHR '' '']"

definition py_whitespace :: string where
  "py_whitespace =
     [CHR 0x09, CHR 0x0A, CHR 0x0B, CHR 0x0C, CHR 0x0D, CHR 0x1C, CHR 0x1D, CHR 0x1E,
      CHR 0x1F, CHR '' '']"

definition STR_NA_VALUES :: "string list" where
  "STR_NA_VALUES =
     [''-1.#IND'', ''1.#QNAN'', ''1.#IND'', ''-1.#QNAN'', ''#N/A N/A'', ''#N/A'', ''N/A'',
      ''n/a'', ''NA'', ''<NA>'', ''#NA'', ''NULL'', ''null'', ''NaN'', ''-NaN'', ''nan'',
      ''-nan'', '''']"

definition na_cell :: "string \<Rightarrow> cell" where
  "na_cell s = (if s \<in> set STR_NA_VALUES then NaN else Str s)"

definition fwf_field :: "nat \<Rightarrow> nat \<Rightarrow> string \<Rightarrow> string" where
  "fwf_field a b line = strip fwf_delimiter (slice a b line)"

definition fwf_blank :: "(nat \<times> nat) list \<Rightarrow> string \<Rightarrow> bool" where
  "fwf_blank colspecs line =
     list_all (\<lambda>(a, b). strip py_whitespace (fwf_field a b line) = []) colspecs"

definition read_fwf :: "(nat \<times> nat) list \<Rightarrow> string list \<Rightarrow> error + frame" where
  "read_fwf colspecs lines =
     (let kept = filter (\<lambda>line. \<not> fwf_blank colspecs line) lines
      in if kept = [] then Inl EmptyDataError
         else Inr (map (\<lambda>(j, (a, b)). (Position j, map (\<lambda>line. na_cell (fwf_field a b line)) kept))
                    (enumerate 0 colspecs)))"

text \<open>The response of \<open>requests.get\<close>, its content already split into lines;
  \<open>raise_for_status\<close> raises on a 4xx or 5xx status.\<close>

record response =
  status_code :: nat
  content :: "string list"

definition raise_for_status :: "response \<Rightarrow> error + unit" where
  "raise_for_status r =
     (if 400 \<le> status_code r \<and> status_code r < 600 then Inl HTTPError else Inr ())"

definition listing_base_url :: string where
  "listing_base_url = ''https://www1.ncdc.noaa.gov/pub/data/ghcn/daily/ghcnd-stations.txt''"

definition listing_colspecs :: "(nat \<times> nat) list" where
  "listing_colspecs = [(0, 11), (12, 20), (21, 30), (31, 37), (41, 71)]"

text \<open>
  \<open>_all\<close> fetches the listing, parses it and names the columns. The first argument is
  \<open>requests.get\<close>. (The cache around the fetch is an external collaborator and is not
  modelled: every call goes to the network.)
\<close>

definition NoaaGhcnRequest_all ::
  "(string \<Rightarrow> error + response) \<Rightarrow> net_log \<Rightarrow> (error + frame) \<times> net_log" where
  "NoaaGhcnRequest_all requests_get log =
     (let log' = log @ [listing_base_url] in
      case requests_get listing_base_url of
        Inl e \<Rightarrow> (Inl e, log')
      | Inr r \<Rightarrow>
          (case raise_for_status r of
             Inl e \<Rightarrow> (Inl e, log')
           | Inr u \<Rightarrow>
               (case read_fwf listing_colspecs (content r) of
                  Inl e \<Rightarrow> (Inl e, log')
                | Inr df \<Rightarrow>
                    (set_columns
                       [Column STATION_ID, Column LATITUDE, Column LONGITUDE, Column HEIGHT,
                        Column NAME] df, log'))))"

text \<open>The sample row as the specification prints it, and the row of station
  \<open>GME00111464\<close> in the layout of the stations file.\<close>

definition spec_sample_row :: string where
  "spec_sample_row = ''GME00111464  50.7983    6.0244   202.0  AACHEN''"

definition ghcn_sample_row :: string where
  "ghcn_sample_row = ''GME00111464  50.7983    6.0244  202.0    AACHEN''"

definition serve :: "string list \<Rightarrow> string \<Rightarrow> error + response" where
  "serve lines url = Inr \<lparr>status_code = 200, content = lines\<rparr>"

section \<open>Station values: \<open>NoaaGhcnValues._collect_station_parameter\<close>\<close>

definition values_base_url :: "string \<Rightarrow> string" where
  "values_base_url station_id =
     ''https://www1.ncdc.noaa.gov/pub/data/ghcn/daily/by_station/'' @ station_id @ ''.csv.gz''"

definition values_columns :: "label list" where
  "values_columns =
     [Column STATION_ID, Column DATE, Column PARAMETER, Column VALUE, Column QUALITY]"

text \<open>
  The first two arguments are the external calls: \<open>download_file\<close>, from a URL to the
  file or an error, and \<open>pd.read_csv(file, sep=",", compression="gzip", header=None)\<close>,
  from the file to the frame of all its columns or an error. The parameter and the
  dataset are ignored, as in the source.
\<close>

definition NoaaGhcnValues_collect_station_parameter ::
  "(string \<Rightarrow> error + 'f) \<Rightarrow> ('f \<Rightarrow> error + frame) \<Rightarrow> string \<Rightarrow> 'p \<Rightarrow> 'd \<Rightarrow> net_log
     \<Rightarrow> (error + frame) \<times> net_log" where
  "NoaaGhcnValues_collect_station_parameter download_file read_csv station_id parameter dataset log =
     (let url = values_base_url station_id; log' = log @ [url] in
      case download_file url of
        Inl e \<Rightarrow> (Inl e, log')
      | Inr file \<Rightarrow>
          (case read_csv file of
             Inl e \<Rightarrow> (Inl e, log')
           | Inr df0 \<Rightarrow>
               (case set_columns values_columns (iloc_columns_but_last 3 df0) of
                  Inl e \<Rightarrow> (Inl e, log')
                | Inr df \<Rightarrow>
                    (case loc_get (Column PARAMETER) df of
                       Inl e \<Rightarrow> (Inl e, log')
                     | Inr col \<Rightarrow>
                         (case series_str_lower col of
                            Inl e \<Rightarrow> (Inl e, log')
                          | Inr low \<Rightarrow> (Inr (loc_set (Column PARAMETER) low df), log'))))))"

text \<open>A by-station file of two observations, as \<open>read_csv\<close> returns it: eight columns,
  the parameter codes in mixed case.\<close>

definition sample_values_frame :: frame where
  "sample_values_frame =
     [(Position 0, [Str ''GME00111464'', Str ''GME00111464'']),
      (Position 1, [Num 19470101, Num 19470101]),
      (Position 2, [Str ''TMAX'', Str ''PrCp'']),
      (Position 3, [Num 12, Num 0]),
      (Position 4, [NaN, NaN]),
      (Position 5, [NaN, NaN]),
      (Position 6, [Str ''E'', Str ''E'']),
      (Position 7, [NaN, NaN])]"

section \<open>Parameter registry\<close>

text \<open>
  The members of the enumeration \<open>NoaaGhcnParameter.DAILY\<close>, in the order of the
  source, each with its name and its value (the agency code).
\<close>

definition NoaaGhcnParameter_DAILY :: "(string \<times> string) list" where
  "NoaaGhcnParameter_DAILY = [
    (''PRECIPITATION_HEIGHT'', ''prcp''),
    (''SNOW_DEPTH_NEW'', ''snow''),
    (''SNOW_DEPTH'', ''snwd''),
    (''TEMPERATURE_AIR_MAX_200'', ''tmax''),
    (''TEMPERATURE_AIR_MIN_200'', ''tmin''),
    (''CLOUD_COVER_TOTAL_MIDNIGHT_TO_MIDNIGHT'', ''acmc''),
    (''CLOUD_COVER_TOTAL_MIDNIGHT_TO_MIDNIGHT_MANUAL'', ''acmh''),
    (''CLOUD_COVER_TOTAL_SUNRISE_TO_SUNSET'', ''acsc''),
    (''CLOUD_COVER_TOTAL_SUNRISE_TO_SUNSET_MANUAL'', ''acsh''),
    (''WIND_SPEED'', ''awnd''),
    (''COUNT_DAYS_MULTIDAY_EVAPORATION'', ''daev''),
    (''COUNT_DAYS_MULTIDAY_PRECIPITATION'', ''dapr''),
    (''COUNT_DAYS_MULTIDAY_SNOW_DEPTH_NEW'', ''dasf''),
    (''COUNT_DAYS_MULTIDAY_TEMPERATURE_AIR_MIN_200'', ''datn''),
    (''COUNT_DAYS_MULTIDAY_TEMPERATURE_AIR_MAX_200'', ''datx''),
    (''COUNT_DAYS_MULTIDAY_WIND_MOVEMENT'', ''dawm''),
    (''COUNT_DAYS_MULTIDAY_PRECIPITATION_HEIGHT_GT_0'', ''dwpr''),
    (''EVAPORATION_HEIGHT'', ''evap''),
    (''TIME_WIND_GUST_MAX_1MILE_OR_1MIN'', ''fmtm''),
    (''FROZEN_GROUND_LAYER_BASE'', ''frgb''),
    (''FROZEN_GROUND_LAYER_TOP'', ''frgt''),
    (''FROZEN_GROUND_LAYER_THICKNESS'', ''frth''),
    (''DISTANCE_RIVER_GAUGE_HEIGHT'', ''gaht''),
    (''EVAPORATION_HEIGHT_MULTIDAY'', ''mdev''),
    (''PRECIPITATION_HEIGHT_MULTIDAY'', ''mdpr''),
    (''SNOW_DEPTH_NEW_MULTIDAY'', ''mdsf''),
    (''TEMPERATURE_AIR_MIN_200_MULTIDAY'', ''mdtn''),
    (''TEMPERATURE_AIR_MAX_200_MULTIDAY'', ''mdtx''),
    (''WIND_MOVEMENT_MULTIDAY'', ''mdwm''),
    (''TEMPERATURE_WATER_EVAPORATION_PAN_MIN'', ''mnpn''),
    (''TEMPERATURE_WATER_EVAPORATION_PAN_MAX'', ''mxpn''),
    (''TIME_WIND_GUST_MAX'', ''pgtm''),
    (''SUNSHINE_DURATION_RELATIVE'', ''psun''),
    (''TEMPERATURE_SOIL_MIN_UNKNOWN_005'', ''sn01''),
    (''TEMPERATURE_SOIL_MIN_UNKNOWN_010'', ''sn02''),
    (''TEMPERATURE_SOIL_MIN_UNKNOWN_020'', ''sn03''),
    (''TEMPERATURE_SOIL_MIN_UNKNOWN_050'', ''sn04''),
    (''TEMPERATURE_SOIL_MIN_UNKNOWN_100'', ''sn05''),
    (''TEMPERATURE_SOIL_MIN_UNKNOWN_150'', ''sn06''),
    (''TEMPERATURE_SOIL_MIN_UNKNOWN_180'', ''sn07''),
    (''TEMPERATURE_SOIL_MAX_UNKNOWN_005'', ''sx01''),
    (''TEMPERATURE_SOIL_MAX_UNKNOWN_010'', ''sx02''),
    (''TEMPERATURE_SOIL_MAX_UNKNOWN_020'', ''sx03''),
    (''TEMPERATURE_SOIL_MAX_UNKNOWN_050'', ''sx04''),
    (''TEMPERATURE_SOIL_MAX_UNKNOWN_100'', ''sx05''),
    (''TEMPERATURE_SOIL_MAX_UNKNOWN_150'', ''sx06''),
    (''TEMPERATURE_SOIL_MAX_UNKNOWN_180'', ''sx07''),
    (''TEMPERATURE_SOIL_MIN_GRASS_005'', ''sn11''),
    (''TEMPERATURE_SOIL_MIN_GRASS_010'', ''sn12''),
    (''TEMPERATURE_SOIL_MIN_GRASS_020'', ''sn13''),
    (''TEMPERATURE_SOIL_MIN_GRASS_050'', ''sn14''),
    (''TEMPERATURE_SOIL_MIN_GRASS_100'', ''sn15''),
    (''TEMPERATURE_SOIL_MIN_GRASS_150'', ''sn16''),
    (''TEMPERATURE_SOIL_MIN_GRASS_180'', ''sn17''),
    (''TEMPERATURE_SOIL_MAX_GRASS_005'', ''sx11''),
    (''TEMPERATURE_SOIL_MAX_GRASS_010'', ''sx12''),
    (''TEMPERATURE_SOIL_MAX_GRASS_020'', ''sx13''),
    (''TEMPERATURE_SOIL_MAX_GRASS_050'', ''sx14''),
    (''TEMPERATURE_SOIL_MAX_GRASS_100'', ''sx15''),
    (''TEMPERATURE_SOIL_MAX_GRASS_150'', ''sx16''),
    (''TEMPERATURE_SOIL_MAX_GRASS_180'', ''sx17''),
    (''TEMPERATURE_SOIL_MIN_FALLOW_005'', ''sn21''),
    (''TEMPERATURE_SOIL_MIN_FALLOW_010'', ''sn22''),
    (''TEMPERATURE_SOIL_MIN_FALLOW_020'', ''sn23''),
    (''TEMPERATURE_SOIL_MIN_FALLOW_050'', ''sn24''),
    (''TEMPERATURE_SOIL_MIN_FALLOW_100'', ''sn25''),
    (''TEMPERATURE_SOIL_MIN_FALLOW_150'', ''sn26''),
    (''TEMPERATURE_SOIL_MIN_FALLOW_180'', ''sn27''),
    (''TEMPERATURE_SOIL_MAX_FALLOW_005'', ''sx21''),
    (''TEMPERATURE_SOIL_MAX_FALLOW_010'', ''sx22''),
    (''TEMPERATURE_SOIL_MAX_FALLOW_020'', ''sx23''),
    (''TEMPERATURE_SOIL_MAX_FALLOW_050'', ''sx24''),
    (''TEMPERATURE_SOIL_MAX_FALLOW_100'', ''sx25''),
    (''TEMPERATURE_SOIL_MAX_FALLOW_150'', ''sx26''),
    (''TEMPERATURE_SOIL_MAX_FALLOW_180'', ''sx27''),
    (''TEMPERATURE_SOIL_MIN_BARE_GROUND_005'', ''sn31''),
    (''TEMPERATURE_SOIL_MIN_BARE_GROUND_010'', ''sn32''),
    (''TEMPERATURE_SOIL_MIN_BARE_GROUND_020'', ''sn33''),
    (''TEMPERATURE_SOIL_MIN_BARE_GROUND_050'', ''sn34''),
    (''TEMPERATURE_SOIL_MIN_BARE_GROUND_100'', ''sn35''),
    (''TEMPERATURE_SOIL_MIN_BARE_GROUND_150'', ''sn36''),
    (''TEMPERATURE_SOIL_MIN_BARE_GROUND_180'', ''sn37''),
    (''TEMPERATURE_SOIL_MAX_BARE_GROUND_005'', ''sx31''),
    (''TEMPERATURE_SOIL_MAX_BARE_GROUND_010'', ''sx32''),
    (''TEMPERATURE_SOIL_MAX_BARE_GROUND_020'', ''sx33''),
    (''TEMPERATURE_SOIL_MAX_BARE_GROUND_050'', ''sx34''),
    (''TEMPERATURE_SOIL_MAX_BARE_GROUND_100'', ''sx35''),
    (''TEMPERATURE_SOIL_MAX_BARE_GROUND_150'', ''sx36''),
    (''TEMPERATURE_SOIL_MAX_BARE_GROUND_180'', ''sx37''),
    (''TEMPERATURE_SOIL_MIN_BROME_GRASS_005'', ''sn41''),
    (''TEMPERATURE_SOIL_MIN_BROME_GRASS_010'', ''sn42''),
    (''TEMPERATURE_SOIL_MIN_BROME_GRASS_020'', ''sn43''),
    (''TEMPERATURE_SOIL_MIN_BROME_GRASS_050'', ''sn44''),
    (''TEMPERATURE_SOIL_MIN_BROME_GRASS_100'', ''sn45''),
    (''TEMPERATURE_SOIL_MIN_BROME_GRASS_150'', ''sn46''),
    (''TEMPERATURE_SOIL_MIN_BROME_GRASS_180'', ''sn47''),
    (''TEMPERATURE_SOIL_MAX_BROME_GRASS_005'', ''sx41''),
    (''TEMPERATURE_SOIL_MAX_BROME_GRASS_010'', ''sx42''),
    (''TEMPERATURE_SOIL_MAX_BROME_GRASS_020'', ''sx43''),
    (''TEMPERATURE_SOIL_MAX_BROME_GRASS_050'', ''sx44''),
    (''TEMPERATURE_SOIL_MAX_BROME_GRASS_100'', ''sx45''),
    (''TEMPERATURE_SOIL_MAX_BROME_GRASS_150'', ''sx46''),
    (''TEMPERATURE_SOIL_MAX_BROME_GRASS_180'', ''sx47''),
    (''TEMPERATURE_SOIL_MIN_SOD_005'', ''sn51''),
    (''TEMPERATURE_SOIL_MIN_SOD_010'', ''sn52''),
    (''TEMPERATURE_SOIL_MIN_SOD_020'', ''sn53''),
    (''TEMPERATURE_SOIL_MIN_SOD_050'', ''sn54''),
    (''TEMPERATURE_SOIL_MIN_SOD_100'', ''sn55''),
    (''TEMPERATURE_SOIL_MIN_SOD_150'', ''sn56''),
    (''TEMPERATURE_SOIL_MIN_SOD_180'', ''sn57''),
    (''TEMPERATURE_SOIL_MAX_SOD_005'', ''sx51''),
    (''TEMPERATURE_SOIL_MAX_SOD_010'', ''sx52''),
    (''TEMPERATURE_SOIL_MAX_SOD_020'', ''sx53''),
    (''TEMPERATURE_SOIL_MAX_SOD_050'', ''sx54''),
    (''TEMPERATURE_SOIL_MAX_SOD_100'', ''sx55''),
    (''TEMPERATURE_SOIL_MAX_SOD_150'', ''sx56''),
    (''TEMPERATURE_SOIL_MAX_SOD_180'', ''sx57''),
    (''TEMPERATURE_SOIL_MIN_STRAW_MULCH_005'', ''sn61''),
    (''TEMPERATURE_SOIL_MIN_STRAW_MULCH_010'', ''sn62''),
    (''TEMPERATURE_SOIL_MIN_STRAW_MULCH_020'', ''sn63''),
    (''TEMPERATURE_SOIL_MIN_STRAW_MULCH_050'', ''sn64''),
    (''TEMPERATURE_SOIL_MIN_STRAW_MULCH_100'', ''sn65''),
    (''TEMPERATURE_SOIL_MIN_STRAW_MULCH_150'', ''sn66''),
    (''TEMPERATURE_SOIL_MIN_STRAW_MULCH_180'', ''sn67''),
    (''TEMPERATURE_SOIL_MAX_STRAW_MULCH_005'', ''sx61''),
    (''TEMPERATURE_SOIL_MAX_STRAW_MULCH_010'', ''sx62''),
    (''TEMPERATURE_SOIL_MAX_STRAW_MULCH_020'', ''sx63''),
    (''TEMPERATURE_SOIL_MAX_STRAW_MULCH_050'', ''sx64''),
    (''TEMPERATURE_SOIL_MAX_STRAW_MULCH_100'', ''sx65''),
    (''TEMPERATURE_SOIL_MAX_STRAW_MULCH_150'', ''sx66''),
    (''TEMPERATURE_SOIL_MAX_STRAW_MULCH_180'', ''sx67''),
    (''TEMPERATURE_SOIL_MIN_GRASS_MUCK_005'', ''sn71''),
    (''TEMPERATURE_SOIL_MIN_GRASS_MUCK_010'', ''sn72''),
    (''TEMPERATURE_SOIL_MIN_GRASS_MUCK_020'', ''sn73''),
    (''TEMPERATURE_SOIL_MIN_GRASS_MUCK_050'', ''sn74''),
    (''TEMPERATURE_SOIL_MIN_GRASS_MUCK_100'', ''sn75''),
    (''TEMPERATURE_SOIL_MIN_GRASS_MUCK_150'', ''sn76''),
    (''TEMPERATURE_SOIL_MIN_GRASS_MUCK_180'', ''sn77''),
    (''TEMPERATURE_SOIL_MAX_GRASS_MUCK_005'', ''sx71''),
    (''TEMPERATURE_SOIL_MAX_GRASS_MUCK_010'', ''sx72''),
    (''TEMPERATURE_SOIL_MAX_GRASS_MUCK_020'', ''sx73''),
    (''TEMPERATURE_SOIL_MAX_GRASS_MUCK_050'', ''sx74''),
    (''TEMPERATURE_SOIL_MAX_GRASS_MUCK_100'', ''sx75''),
    (''TEMPERATURE_SOIL_MAX_GRASS_MUCK_150'', ''sx76''),
    (''TEMPERATURE_SOIL_MAX_GRASS_MUCK_180'', ''sx77''),
    (''TEMPERATURE_SOIL_MIN_BARE_MUCK_005'', ''sn81''),
    (''TEMPERATURE_SOIL_MIN_BARE_MUCK_010'', ''sn82''),
    (''TEMPERATURE_SOIL_MIN_BARE_MUCK_020'', ''sn83''),
    (''TEMPERATURE_SOIL_MIN_BARE_MUCK_050'', ''sn84''),
    (''TEMPERATURE_SOIL_MIN_BARE_MUCK_100'', ''sn85''),
    (''TEMPERATURE_SOIL_MIN_BARE_MUCK_150'', ''sn86''),
    (''TEMPERATURE_SOIL_MIN_BARE_MUCK_180'', ''sn87''),
    (''TEMPERATURE_SOIL_MAX_BARE_MUCK_005'', ''sx81''),
    (''TEMPERATURE_SOIL_MAX_BARE_MUCK_010'', ''sx82''),
    (''TEMPERATURE_SOIL_MAX_BARE_MUCK_020'', ''sx83''),
    (''TEMPERATURE_SOIL_MAX_BARE_MUCK_050'', ''sx84''),
    (''TEMPERATURE_SOIL_MAX_BARE_MUCK_100'', ''sx85''),
    (''TEMPERATURE_SOIL_MAX_BARE_MUCK_150'', ''sx86''),
    (''TEMPERATURE_SOIL_MAX_BARE_MUCK_180'', ''sx87''),
    (''ICE_ON_WATER_THICKNESS'', ''thic''),
    (''TEMPERATURE_AIR_200'', ''tobs''),
    (''SUNSHINE_DURATION'', ''tsun''),
    (''WIND_DIRECTION_GUST_MAX_5SEC'', ''wdf5''),
    (''WIND_DIRECTION_GUST_MAX_1MIN'', ''wdf1''),
    (''WIND_DIRECTION_GUST_MAX_2MIN'', ''wdf2''),
    (''WIND_DIRECTION_GUST_MAX'', ''wdfg''),
    (''WIND_DIRECTION_GUST_MAX_INSTANT'', ''wdfi''),
    (''WIND_DIRECTION_GUST_MAX_1MILE'', ''wdfm''),
    (''WIND_MOVEMENT_24HOUR'', ''wdmv''),
    (''WATER_EQUIVALENT_SNOW_DEPTH'', ''wesd''),
    (''WATER_EQUIVALENT_SNOW_DEPTH_NEW'', ''wesf''),
    (''WIND_GUST_MAX_5SEC'', ''wsf5''),
    (''WIND_GUST_MAX_1MIN'', ''wsf1''),
    (''WIND_GUST_MAX_2MIN'', ''wsf2''),
    (''WIND_GUST_MAX'', ''wsfg''),
    (''WIND_GUST_MAX_INSTANT'', ''wsfi''),
    (''WIND_GUST_MAX_1MILE'', ''wsfm''),
    (''WEATHER_TYPE_FOG'', ''wt01''),
    (''WEATHER_TYPE_HEAVY_FOG'', ''wt02''),
    (''WEATHER_TYPE_THUNDER'', ''wt03''),
    (''WEATHER_TYPE_ICE_SLEET_SNOW_HAIL'', ''wt04''),
    (''WEATHER_TYPE_HAIL'', ''wt05''),
    (''WEATHER_TYPE_GLAZE_RIME'', ''wt06''),
    (''WEATHER_TYPE_DUST_ASH_SAND'', ''wt07''),
    (''WEATHER_TYPE_SMOKE_HAZE'', ''wt08''),
    (''WEATHER_TYPE_BLOWING_DRIFTING_SNOW'', ''wt09''),
    (''WEATHER_TYPE_TORNADO_WATERSPOUT'', ''wt10''),
    (''WEATHER_TYPE_HIGH_DAMAGING_WINDS'', ''wt11''),
    (''WEATHER_TYPE_BLOWING_SPRAY'', ''wt12''),
    (''WEATHER_TYPE_MIST'', ''wt13''),
    (''WEATHER_TYPE_DRIZZLE'', ''wt14''),
    (''WEATHER_TYPE_FREEZING_DRIZZLE'', ''wt15''),
    (''WEATHER_TYPE_RAIN'', ''wt16''),
    (''WEATHER_TYPE_FREEZING_RAIN'', ''wt17''),
    (''WEATHER_TYPE_SNOW_PELLETS_SNOW_GRAINS_ICE_CRYSTALS'', ''wt18''),
    (''WEATHER_TYPE_PRECIPITATION_UNKNOWN_SOURCE'', ''wt19''),
    (''WEATHER_TYPE_GROUND_FOG'', ''wt21''),
    (''WEATHER_TYPE_ICE_FOG_FREEZING_FOG'', ''wt22''),
    (''WEATHER_TYPE_VICINITY_FOG_ANY'', ''wv01''),
    (''WEATHER_TYPE_VICINITY_THUNDER'', ''wv03''),
    (''WEATHER_TYPE_VICINITY_DUST_ASH_SAND'', ''wv07''),
    (''WEATHER_TYPE_VICINITY_SNOW_ICE_CRYSTALS'', ''wv18''),
    (''WEATHER_TYPE_VICINITY_RAIN_SNOW_SHOWER'', ''wv20'')
  ]"

text \<open>
  Modelled from the spec: the enumerations \<open>Resolution\<close> and \<open>Period\<close> of
  \<open>wetterdienst.metadata\<close> are not among the sources; their members here are the ones
  that the source and the specification name.
\<close>

datatype Resolution = DAILY | HOURLY

datatype Period = HISTORICAL | RECENT

text \<open>
  Modelled from the spec: the parameter registry (sections 3 and 4.1) is not among the
  sources. A parameter is a pair of canonical name and agency code; the registry groups
  the parameters, each with its dataset, by resolution.
\<close>

record Parameter =
  canonical_name :: string
  agency_code :: string

type_synonym dataset = string

type_synonym registry = "Resolution \<Rightarrow> (Parameter \<times> dataset) list"

text \<open>
  Modelled from the spec: the comparison of the lookup (section 4.1), which is not among
  the sources: exact, after case normalization to uppercase, against the canonical name
  and against the agency code.
\<close>

definition matches :: "string \<Rightarrow> Parameter \<times> dataset \<Rightarrow> bool" where
  "matches s e \<longleftrightarrow>
     str_upper (canonical_name (fst e)) = str_upper s
     \<or> str_upper (agency_code (fst e)) = str_upper s"

text \<open>
  Modelled from the spec: the lookup of a parameter string under a resolution
  (section 4.1), which is not among the sources: it returns the matching pair of
  parameter and dataset (the first one in the order of the registry), or fails with the
  "parameter not found" error if no entry matches under that resolution.
\<close>

definition resolve :: "registry \<Rightarrow> Resolution \<Rightarrow> string \<Rightarrow> error + Parameter \<times> dataset" where
  "resolve reg res s =
     (case find (matches s) (reg res) of None \<Rightarrow> Inl LookupError | Some e \<Rightarrow> Inr e)"

text \<open>The registry of the GHCN provider: the daily parameters, all in the dataset
  \<open>daily\<close> (\<open>NoaaGhcnDatasetBase.DAILY\<close>).\<close>

fun ghcn_registry :: registry where
  "ghcn_registry DAILY =
     map (\<lambda>(n, c). (\<lparr>canonical_name = n, agency_code = c\<rparr>, ''daily'')) NoaaGhcnParameter_DAILY"
| "ghcn_registry HOURLY = []"

text \<open>The five daily parameters of the DWD climate summary that the tests of the
  repository resolve, from \<open>tests/provider/dwd/observation/test_parameters.py\<close>.\<close>

fun dwd_reference_registry :: registry where
  "dwd_reference_registry DAILY =
     [(\<lparr>canonical_name = ''TEMPERATURE_AIR_MEAN_200'', agency_code = ''tmk''\<rparr>, ''CLIMATE_SUMMARY''),
      (\<lparr>canonical_name = ''TEMPERATURE_AIR_MAX_200'', agency_code = ''txk''\<rparr>, ''CLIMATE_SUMMARY''),
      (\<lparr>canonical_name = ''TEMPERATURE_AIR_MIN_200'', agency_code = ''tnk''\<rparr>, ''CLIMATE_SUMMARY''),
      (\<lparr>canonical_name = ''PRECIPITATION_HEIGHT'', agency_code = ''rsk''\<rparr>, ''CLIMATE_SUMMARY''),
      (\<lparr>canonical_name = ''PRECIPITATION_FORM'', agency_code = ''rskf''\<rparr>, ''CLIMATE_SUMMARY'')]"
| "dwd_reference_registry HOURLY = []"

section \<open>Request construction\<close>

text \<open>
  Modelled from the spec: the request descriptor (sections 2 and 3) is not among the
  sources. It holds the resolved list of pairs of parameter and dataset, the resolution,
  the period, the date range and the output options. Dates are points in time, already
  parsed.
\<close>

record request =
  parameter :: "(Parameter \<times> dataset) list"
  resolution :: Resolution
  period :: Period
  start_date :: "int option"
  end_date :: "int option"
  humanize :: bool
  tidy :: bool
  si_units :: bool

text \<open>
  Modelled from the spec: the resolution of the parameter specifiers of a request
  (section 4.2), which is not among the sources: every specifier is resolved through the
  registry, in input order, and duplicates are kept.
\<close>

fun resolve_all :: "registry \<Rightarrow> Resolution \<Rightarrow> string list \<Rightarrow> error + (Parameter \<times> dataset) list" where
  "resolve_all reg res [] = Inr []"
| "resolve_all reg res (s # ss) =
     (case resolve reg res s of
        Inl e \<Rightarrow> Inl e
      | Inr pd \<Rightarrow>
          (case resolve_all reg res ss of Inl e \<Rightarrow> Inl e | Inr pds \<Rightarrow> Inr (pd # pds)))"

text \<open>
  Modelled from the spec: the check of the date range (section 4.2), which is not among
  the sources: the range is inverted when both dates are given and the start is after
  the end.
\<close>

fun date_range_inverted :: "int option \<Rightarrow> int option \<Rightarrow> bool" where
  "date_range_inverted (Some s) (Some e) = (e < s)"
| "date_range_inverted (Some s) None = False"
| "date_range_inverted None e = False"

type_synonym request_init =
  "string list \<Rightarrow> Resolution \<Rightarrow> Period \<Rightarrow> int option \<Rightarrow> int option \<Rightarrow> bool \<Rightarrow> bool \<Rightarrow> bool
     \<Rightarrow> net_log \<Rightarrow> (error + request) \<times> net_log"

text \<open>
  Modelled from the spec: the constructor of the base class \<open>ScalarRequestCore\<close> is not
  among the sources. By sections 3, 4.2 and 7 of the specification it fails with the
  validation error when a specifier does not resolve, when the date range is inverted,
  or when the provider does not support the combination of resolution and period;
  otherwise the request holds the resolved parameters and the arguments as given. The
  constructor makes no network call: the log of network calls comes back unchanged.
\<close>

definition ScalarRequestCore_init ::
  "registry \<Rightarrow> (Resolution \<Rightarrow> Period \<Rightarrow> bool) \<Rightarrow> request_init" where
  "ScalarRequestCore_init reg supported ps res per start end hum td si log =
     (case resolve_all reg res ps of
        Inl e \<Rightarrow> (Inl ValidationError, log)
      | Inr pds \<Rightarrow>
          if date_range_inverted start end then (Inl ValidationError, log)
          else if \<not> supported res per then (Inl ValidationError, log)
          else (Inr \<lparr>parameter = pds, resolution = res, period = per, start_date = start,
                      end_date = end, humanize = hum, tidy = td, si_units = si\<rparr>, log))"

text \<open>
  \<open>NoaaGhcnRequest.__init__\<close>, from the source: it takes no resolution and no period and
  hands \<open>Resolution.DAILY\<close> and \<open>Period.HISTORICAL\<close> to the constructor of the base class,
  which is its first argument here.
\<close>

definition NoaaGhcnRequest_init ::
  "request_init \<Rightarrow> string list \<Rightarrow> int option \<Rightarrow> int option \<Rightarrow> bool \<Rightarrow> bool \<Rightarrow> bool
     \<Rightarrow> net_log \<Rightarrow> (error + request) \<times> net_log" where
  "NoaaGhcnRequest_init super_init ps start end hum td si log =
     super_init ps DAILY HISTORICAL start end hum td si log"

text \<open>The class attributes of \<open>NoaaGhcnRequest\<close>: the only resolution of
  \<open>NoaaGhcnResolution\<close> is daily, and the period base is historical.\<close>

definition ghcn_supported :: "Resolution \<Rightarrow> Period \<Rightarrow> bool" where
  "ghcn_supported res per \<longleftrightarrow> res = DAILY \<and> per = HISTORICAL"

text \<open>A base constructor stores the resolution and the period that it is given.\<close>

definition stores_resolution_period :: "request_init \<Rightarrow> bool" where
  "stores_resolution_period super_init \<longleftrightarrow>
     (\<forall>ps res per start end hum td si log req log'.
        super_init ps res per start end hum td si log = (Inr req, log')
          \<longrightarrow> resolution req = res \<and> period req = per)"

section \<open>Tidy and wide frames\<close>

text \<open>
  Modelled from the spec: the tidy frame (section 3) is not among the sources. It has
  one row per reading, made of station id, date, parameter, value and quality flag.
\<close>

record tidy_row =
  row_station_id :: string
  row_date :: int
  row_parameter :: string
  row_value :: cell
  row_quality :: cell

text \<open>
  Modelled from the spec: the wide form (section 4.5) is not among the sources. It is
  keyed by station id and date and has one column per parameter. A cell holds the
  reading of its key and parameter, value and quality flag together, or nothing when
  there is no such reading.
\<close>

type_synonym reading = "cell \<times> cell"

record wide_frame =
  parameter_columns :: "string list"
  wide_rows :: "((string \<times> int) \<times> reading option list) list"

definition row_key :: "tidy_row \<Rightarrow> string \<times> int" where
  "row_key r = (row_station_id r, row_date r)"

definition reading_at :: "tidy_row list \<Rightarrow> string \<times> int \<Rightarrow> string \<Rightarrow> reading option" where
  "reading_at rows k c =
     map_option (\<lambda>r. (row_value r, row_quality r))
       (find (\<lambda>r. row_key r = k \<and> row_parameter r = c) rows)"

text \<open>
  Modelled from the spec: the pivot (section 4.5), which is not among the sources: one
  column per parameter of the parameter set, the columns ordered by parameter name, and
  one row per pair of station id and date that occurs in the tidy frame.
\<close>

definition pivot :: "string list \<Rightarrow> tidy_row list \<Rightarrow> wide_frame" where
  "pivot ps rows =
     (let cols = sort (remdups ps); keys = remdups (map row_key rows)
      in \<lparr>parameter_columns = cols,
          wide_rows = map (\<lambda>k. (k, map (reading_at rows k) cols)) keys\<rparr>)"

definition row_of :: "string \<times> int \<Rightarrow> string \<Rightarrow> reading \<Rightarrow> tidy_row" where
  "row_of k c vq =
     \<lparr>row_station_id = fst k, row_date = snd k, row_parameter = c, row_value = fst vq,
      row_quality = snd vq\<rparr>"

text \<open>
  Modelled from the spec: the reshaping of the wide form back to the tidy form
  (section 4.5), which is not among the sources: one row per cell that holds a reading.
\<close>

definition melt :: "wide_frame \<Rightarrow> tidy_row list" where
  "melt w =
     concat (map (\<lambda>(k, cells).
                List.map_filter (\<lambda>(c, cell). map_option (row_of k c) cell)
                  (zip (parameter_columns w) cells))
            (wide_rows w))"



text \<open>Two sample frames: three readings of one station, and one reading given
  twice with different values.\<close>

definition sample_tidy :: "tidy_row list" where
  "sample_tidy =
     [\<lparr>row_station_id = ''GME00111464'', row_date = 19470101, row_parameter = ''tmax'',
       row_value = Num 12, row_quality = NaN\<rparr>,
      \<lparr>row_station_id = ''GME00111464'', row_date = 19470101, row_parameter = ''prcp'',
       row_value = Num 0, row_quality = NaN\<rparr>,
      \<lparr>row_station_id = ''GME00111464'', row_date = 19470102, row_parameter = ''prcp'',
       row_value = Num 3, row_quality = Str ''G''\<rparr>]"


section \<open>Properties of \<open>read_in_chunks\<close>\<close>

lemma read_in_chunks_unfold:
  "read_in_chunks rd n s =
     (if fst (rd n s) = [] then Some []
      else map_option ((#) (fst (rd n s))) (read_in_chunks rd n (snd (rd n s))))"
proof (cases "rd n s")
  case (Pair d s')
  show ?thesis
  proof (cases "read_in_chunks rd n s'")
    case None
    with Pair show ?thesis by (subst read_in_chunks.simps) simp
  next
    case (Some r)
    with Pair show ?thesis by (subst read_in_chunks.simps) simp
  qed
qed

lemma nth_read_0: "nth_read rd n s 0 = fst (rd n s)"
  by (simp add: nth_read_def)

lemma nth_read_Suc: "nth_read rd n s (Suc k) = nth_read rd n (snd (rd n s)) k"
  by (simp add: nth_read_def)

lemma read_in_chunks_returns:
  "nth_read rd n s k = [] \<Longrightarrow>
     \<exists>cs. read_in_chunks rd n s = Some cs \<and> length cs \<le> k
        \<and> (\<forall>i < length cs. cs ! i = nth_read rd n s i \<and> cs ! i \<noteq> [])
        \<and> nth_read rd n s (length cs) = []"
proof (induction k arbitrary: s)
  case 0
  then have "fst (rd n s) = []" by (simp add: nth_read_0)
  then have "read_in_chunks rd n s = Some []"
    by (subst read_in_chunks_unfold) simp
  with 0 show ?case by simp
next
  case (Suc k)
  show ?case
  proof (cases "fst (rd n s) = []")
    case True
    then have "read_in_chunks rd n s = Some []"
      by (subst read_in_chunks_unfold) simp
    with True show ?thesis by (simp add: nth_read_0)
  next
    case False
    from Suc.prems have "nth_read rd n (snd (rd n s)) k = []"
      by (simp add: nth_read_Suc)
    from Suc.IH [OF this] obtain cs where
      cs: "read_in_chunks rd n (snd (rd n s)) = Some cs" "length cs \<le> k"
        "\<forall>i < length cs. cs ! i = nth_read rd n (snd (rd n s)) i \<and> cs ! i \<noteq> []"
        "nth_read rd n (snd (rd n s)) (length cs) = []"
      by blast
    let ?r = "fst (rd n s) # cs"
    have "read_in_chunks rd n s = Some ?r"
      using False cs(1) by (subst read_in_chunks_unfold) simp
    moreover have "length ?r \<le> Suc k" using cs(2) by simp
    moreover have "\<forall>i < length ?r. ?r ! i = nth_read rd n s i \<and> ?r ! i \<noteq> []"
    proof (intro allI impI)
      fix i assume "i < length ?r"
      show "?r ! i = nth_read rd n s i \<and> ?r ! i \<noteq> []"
      proof (cases i)
        case 0
        with False show ?thesis by (simp add: nth_read_0)
      next
        case (Suc j)
        with \<open>i < length ?r\<close> have "j < length cs" by simp
        with cs(3) have "cs ! j = nth_read rd n (snd (rd n s)) j" "cs ! j \<noteq> []"
          by blast+
        with Suc show ?thesis by (simp add: nth_read_Suc)
      qed
    qed
    moreover have "nth_read rd n s (length ?r) = []"
      using cs(4) by (simp add: nth_read_Suc)
    ultimately show ?thesis by blast
  qed
qed

lemma honours_size_bound:
  assumes "honours_size rd" "0 \<le> n"
  shows "int (length (nth_read rd n s i)) \<le> n"
  using assms by (simp add: honours_size_def nth_read_def)

lemma honours_size_bytes_read: "honours_size (bytes_read :: ('a list, 'a) read_method)"
  by (auto simp: honours_size_def bytes_read_def)

lemma bytes_read_in_chunks:
  assumes "0 < n"
  shows "\<exists>cs. read_in_chunks bytes_read n buf = Some cs \<and> concat cs = buf
           \<and> (\<forall>c \<in> set cs. c \<noteq> [] \<and> int (length c) \<le> n)"
proof (induction "length buf" arbitrary: buf rule: less_induct)
  case less
  show ?case
  proof (cases "buf = []")
    case True
    then have "read_in_chunks bytes_read n buf = Some []"
      using assms by (subst read_in_chunks_unfold) (simp add: bytes_read_def)
    with True show ?thesis by simp
  next
    case False
    let ?d = "take (nat n) buf" and ?r = "drop (nat n) buf"
    from assms have b: "bytes_read n buf = (?d, ?r)"
      by (simp add: bytes_read_def)
    from False assms have d: "?d \<noteq> []" by simp
    from False assms have "length ?r < length buf" by simp
    from less [OF this] obtain cs where
      cs: "read_in_chunks bytes_read n ?r = Some cs" "concat cs = ?r"
        "\<forall>c \<in> set cs. c \<noteq> [] \<and> int (length c) \<le> n"
      by blast
    have "read_in_chunks bytes_read n buf = Some (?d # cs)"
      using d cs(1) by (subst read_in_chunks_unfold) (simp add: b)
    moreover have "concat (?d # cs) = buf"
      using cs(2) by simp
    moreover have "\<forall>c \<in> set (?d # cs). c \<noteq> [] \<and> int (length c) \<le> n"
      using d cs(3) assms by auto
    ultimately show ?thesis by blast
  qed
qed

text \<open>
  Claim C9, as amended. For every file object whose successive reads eventually return
  an empty result (read number \<open>k\<close> is empty), \<open>read_in_chunks\<close> terminates and yields
  a finite list of chunks: they are exactly the successive reads before the first empty
  one, each of them non-empty, so their concatenation is all that was read from the
  source, and the read that follows them is the empty one at which the loop stops.
  Each chunk has at most \<open>chunk_size\<close> items when \<open>chunk_size\<close> is not negative and the
  \<open>read\<close> method returns at most the requested number of items.
\<close>

theorem read_in_chunks_finite:
  assumes "nth_read rd n s k = []"
  shows "\<exists>cs. read_in_chunks rd n s = Some cs \<and> length cs \<le> k
           \<and> cs = map (nth_read rd n s) [0..<length cs]
           \<and> (\<forall>c \<in> set cs. c \<noteq> [])
           \<and> nth_read rd n s (length cs) = []
           \<and> concat cs = concat (map (nth_read rd n s) [0..<Suc (length cs)])
           \<and> (honours_size rd \<and> 0 \<le> n \<longrightarrow> (\<forall>c \<in> set cs. int (length c) \<le> n))"
proof -
  from read_in_chunks_returns [OF assms] obtain cs where
    cs: "read_in_chunks rd n s = Some cs" "length cs \<le> k"
      "\<forall>i < length cs. cs ! i = nth_read rd n s i \<and> cs ! i \<noteq> []"
      "nth_read rd n s (length cs) = []"
    by blast
  let ?m = "map (nth_read rd n s) [0..<length cs]"
  have eq: "cs = ?m"
    using cs(3) by (intro nth_equalityI) simp_all
  have ne: "\<forall>c \<in> set cs. c \<noteq> []"
    using cs(3) by (auto simp: in_set_conv_nth)
  have "concat ?m = concat (map (nth_read rd n s) [0..<Suc (length cs)])"
    using cs(4) by simp
  then have cc: "concat cs = concat (map (nth_read rd n s) [0..<Suc (length cs)])"
    by (subst eq)
  have bound: "\<forall>c \<in> set cs. int (length c) \<le> n" if h: "honours_size rd" "0 \<le> n"
  proof
    fix c assume "c \<in> set cs"
    then obtain i where "i < length cs" "c = cs ! i"
      by (auto simp: in_set_conv_nth)
    with cs(3) have "c = nth_read rd n s i" by simp
    with honours_size_bound [OF h] show "int (length c) \<le> n" by simp
  qed
  from cs(1,2,4) eq ne cc bound show ?thesis by blast
qed

theorem read_in_chunks_finite_witness:
  "nth_read bytes_read 2 ''abc'' 2 = [] \<and> honours_size (bytes_read :: (string, char) read_method)
     \<and> read_in_chunks bytes_read 2 ''abc'' = Some [''ab'', ''c'']"
proof -
  have h: "nth_read bytes_read 2 ''abc'' 2 = []"
    by (simp add: nth_read_def bytes_read_def numeral_2_eq_2)
  have v: "read_in_chunks bytes_read 2 ''abc'' = Some [''ab'', ''c'']"
    by (simp add: read_in_chunks_unfold bytes_read_def)
  from read_in_chunks_finite [OF h] h v honours_size_bytes_read show ?thesis
    by blast
qed

text \<open>
  Claim C9 as stated bounds every chunk by \<open>chunk_size\<close> for every finite source. With
  a negative \<open>chunk_size\<close> the in-memory stream returns all of its content in one read:
  the only chunk has three items, and \<open>3 \<le> -1\<close> is false.
\<close>

theorem read_in_chunks_negative_size_counterexample:
  "nth_read bytes_read (- 1) ''abc'' 1 = []
     \<and> read_in_chunks bytes_read (- 1) ''abc'' = Some [''abc'']
     \<and> \<not> int (length ''abc'') \<le> - 1"
  by (simp add: nth_read_def read_in_chunks_unfold bytes_read_def)

section \<open>Properties of the string functions\<close>


lemma upper_char_idem: "upper_char (upper_char c) = upper_char c"
proof -
  let ?n = "of_char c :: nat"
  show ?thesis
  proof (cases "97 \<le> ?n \<and> ?n \<le> 122")
    case True
    then have "?n - 32 < 256" by linarith
    then have m: "(of_char (char_of (?n - 32)) :: nat) = ?n - 32" by simp
    from True have nl: "\<not> 97 \<le> ?n - 32" by linarith
    have u: "upper_char c = char_of (?n - 32)"
      using True by (simp add: upper_char_def Let_def)
    have "upper_char (char_of (?n - 32)) = char_of (?n - 32)"
      unfolding upper_char_def Let_def m using nl by simp
    with u show ?thesis by simp
  next
    case False
    then have "upper_char c = c" by (auto simp: upper_char_def Let_def)
    then show ?thesis by simp
  qed
qed

lemma upper_lower_char: "upper_char (lower_char c) = upper_char c"
  by (simp add: upper_char_def lower_char_def Let_def)


lemma str_upper_idem: "str_upper (str_upper s) = str_upper s"
  by (simp add: str_upper_def upper_char_idem)

lemma str_upper_lower: "str_upper (str_lower s) = str_upper s"
  by (simp add: str_upper_def str_lower_def upper_lower_char)


lemma str_lower_mixed_case: "str_lower ''TmAx_1'' = ''tmax_1''"
  by (simp add: str_lower_def lower_char_def char_of_def bit_0)

lemma str_upper_mixed_case: "str_upper ''TmAx_1'' = ''TMAX_1''"
  by (simp add: str_upper_def upper_char_def char_of_def bit_0)

section \<open>Properties of the station listing\<close>

lemma spec_sample_row_fields:
  "map (\<lambda>(a, b). fwf_field a b spec_sample_row) listing_colspecs =
     [''GME00111464'', ''50.7983'', ''6.0244'', ''202.'', ''ACHEN'']"
  by (simp add: fwf_field_def strip_def slice_def fwf_delimiter_def spec_sample_row_def
      listing_colspecs_def)

lemma ghcn_sample_row_fields:
  "map (\<lambda>(a, b). fwf_field a b ghcn_sample_row) listing_colspecs =
     [''GME00111464'', ''50.7983'', ''6.0244'', ''202.0'', ''AACHEN'']"
  by (simp add: fwf_field_def strip_def slice_def fwf_delimiter_def ghcn_sample_row_def
      listing_colspecs_def)

lemma all_spec_sample_row:
  "NoaaGhcnRequest_all (serve [spec_sample_row]) [] =
     (Inr [(Column STATION_ID, [Str ''GME00111464'']), (Column LATITUDE, [Str ''50.7983'']),
           (Column LONGITUDE, [Str ''6.0244'']), (Column HEIGHT, [Str ''202.'']),
           (Column NAME, [Str ''ACHEN''])], [listing_base_url])"
  by (simp add: NoaaGhcnRequest_all_def serve_def raise_for_status_def read_fwf_def
      fwf_blank_def Let_def set_columns_def na_cell_def STR_NA_VALUES_def py_whitespace_def
      fwf_field_def strip_def slice_def fwf_delimiter_def spec_sample_row_def
      listing_colspecs_def enumerate_eq_zip)

text \<open>
  Claim C1, as amended. Parsing the station listing with the column offsets
  \<open>(0,11)\<close>, \<open>(12,20)\<close>, \<open>(21,30)\<close>, \<open>(31,37)\<close>, \<open>(41,71)\<close> maps the stripped slices
  of every line that is not blank to station id, latitude, longitude, height and name.
  For the row of station \<open>GME00111464\<close> in the layout of the stations file the parse
  yields exactly \<open>GME00111464\<close>, \<open>50.7983\<close>, \<open>6.0244\<close>, \<open>202.0\<close> and \<open>AACHEN\<close>.
\<close>

theorem NoaaGhcnRequest_all_fields:
  assumes "requests_get listing_base_url = Inr r"
    and "\<not> (400 \<le> status_code r \<and> status_code r < 600)"
    and "kept = filter (\<lambda>line. \<not> fwf_blank listing_colspecs line) (content r)"
    and "kept \<noteq> []"
  shows "NoaaGhcnRequest_all requests_get log =
     (Inr [(Column STATION_ID, map (\<lambda>line. na_cell (fwf_field 0 11 line)) kept),
           (Column LATITUDE, map (\<lambda>line. na_cell (fwf_field 12 20 line)) kept),
           (Column LONGITUDE, map (\<lambda>line. na_cell (fwf_field 21 30 line)) kept),
           (Column HEIGHT, map (\<lambda>line. na_cell (fwf_field 31 37 line)) kept),
           (Column NAME, map (\<lambda>line. na_cell (fwf_field 41 71 line)) kept)],
      log @ [listing_base_url])"
proof -
  have e: "enumerate 0 listing_colspecs =
      [(0, (0, 11)), (1, (12, 20)), (2, (21, 30)), (3, (31, 37)), (4, (41, 71))]"
    by (simp add: listing_colspecs_def enumerate_eq_zip upt_rec)
  from assms(3,4) have "read_fwf listing_colspecs (content r) =
      Inr [(Position 0, map (\<lambda>line. na_cell (fwf_field 0 11 line)) kept),
           (Position 1, map (\<lambda>line. na_cell (fwf_field 12 20 line)) kept),
           (Position 2, map (\<lambda>line. na_cell (fwf_field 21 30 line)) kept),
           (Position 3, map (\<lambda>line. na_cell (fwf_field 31 37 line)) kept),
           (Position 4, map (\<lambda>line. na_cell (fwf_field 41 71 line)) kept)]"
    by (simp add: read_fwf_def Let_def e)
  with assms(1,2) show ?thesis
    by (simp add: NoaaGhcnRequest_all_def Let_def raise_for_status_def set_columns_def)
qed

theorem NoaaGhcnRequest_all_fields_witness:
  "NoaaGhcnRequest_all (serve [ghcn_sample_row]) [] =
     (Inr [(Column STATION_ID, [Str ''GME00111464'']), (Column LATITUDE, [Str ''50.7983'']),
           (Column LONGITUDE, [Str ''6.0244'']), (Column HEIGHT, [Str ''202.0'']),
           (Column NAME, [Str ''AACHEN''])], [listing_base_url])"
proof -
  let ?r = "\<lparr>status_code = 200, content = [ghcn_sample_row]\<rparr>"
  have 1: "serve [ghcn_sample_row] listing_base_url = Inr ?r"
    by (simp add: serve_def)
  have 2: "\<not> (400 \<le> status_code ?r \<and> status_code ?r < 600)"
    by simp
  have 3: "[ghcn_sample_row] =
      filter (\<lambda>line. \<not> fwf_blank listing_colspecs line) (content ?r)"
    by (simp add: fwf_blank_def listing_colspecs_def py_whitespace_def fwf_field_def
        strip_def slice_def fwf_delimiter_def ghcn_sample_row_def)
  have 4: "[ghcn_sample_row] \<noteq> []" by simp
  from NoaaGhcnRequest_all_fields [where requests_get = "serve [ghcn_sample_row]"
      and r = ?r and kept = "[ghcn_sample_row]" and log = "[]", OF 1 2 3 4]
  show ?thesis
    by (simp add: na_cell_def STR_NA_VALUES_def fwf_field_def strip_def slice_def
        fwf_delimiter_def ghcn_sample_row_def)
qed

text \<open>
  Claim C1 as stated takes the sample row as the specification prints it. There the
  height stands one column further right and the name one column further left than in
  the stations file: the height slice is \<open>202.\<close> and the name slice is \<open>ACHEN\<close>.
\<close>

theorem NoaaGhcnRequest_all_spec_row_counterexample:
  "NoaaGhcnRequest_all (serve [spec_sample_row]) [] =
     (Inr [(Column STATION_ID, [Str ''GME00111464'']), (Column LATITUDE, [Str ''50.7983'']),
           (Column LONGITUDE, [Str ''6.0244'']), (Column HEIGHT, [Str ''202.'']),
           (Column NAME, [Str ''ACHEN''])], [listing_base_url])
   \<and> fst (NoaaGhcnRequest_all (serve [spec_sample_row]) []) \<noteq>
     Inr [(Column STATION_ID, [Str ''GME00111464'']), (Column LATITUDE, [Str ''50.7983'']),
          (Column LONGITUDE, [Str ''6.0244'']), (Column HEIGHT, [Str ''202.0'']),
          (Column NAME, [Str ''AACHEN''])]"
  by (simp add: all_spec_sample_row)

section \<open>Properties of the station values\<close>

lemma length_8_conv:
  "length xs = 8 \<Longrightarrow> \<exists>a b c d e f g h. xs = [a, b, c, d, e, f, g, h]"
  by (simp add: eval_nat_numeral length_Suc_conv) blast

lemma collect_success:
  assumes "fst (NoaaGhcnValues_collect_station_parameter dl rc sid p d log) = Inr out"
  shows "\<exists>fl df. dl (values_base_url sid) = Inr fl \<and> rc fl = Inr df \<and> length df = 8
           \<and> list_ex is_text (snd (df ! 2))
           \<and> out = zip values_columns ((map snd (take 5 df))[2 := map lower_cell (snd (df ! 2))])"
proof -
  from assms obtain fl df0 df col low where
    s: "dl (values_base_url sid) = Inr fl" "rc fl = Inr df0"
       "set_columns values_columns (iloc_columns_but_last 3 df0) = Inr df"
       "loc_get (Column PARAMETER) df = Inr col" "series_str_lower col = Inr low"
       "out = loc_set (Column PARAMETER) low df"
    by (auto simp: NoaaGhcnValues_collect_station_parameter_def Let_def split: sum.splits)
  from s(3) have len: "length df0 = 8"
    by (auto simp: set_columns_def iloc_columns_but_last_def values_columns_def
        split: if_splits)
  then obtain c0 c1 c2 c3 c4 c5 c6 c7 where df0: "df0 = [c0, c1, c2, c3, c4, c5, c6, c7]"
    using length_8_conv by blast
  from s(3) have df: "df = zip values_columns (map snd [c0, c1, c2, c3, c4])"
    by (auto simp: set_columns_def iloc_columns_but_last_def values_columns_def df0
        split: if_splits)
  from s(4) have col: "col = snd c2"
    by (simp add: loc_get_def df values_columns_def)
  from s(5) have low: "list_ex is_text col" "low = map lower_cell col"
    by (auto simp: series_str_lower_def split: if_splits)
  have "out = zip values_columns ((map snd (take 5 df0))[2 := map lower_cell (snd (df0 ! 2))])"
    by (simp add: s(6) df low(2) col df0 loc_set_def values_columns_def)
  with s(1,2) len low(1) col df0 show ?thesis by auto
qed

lemma collect_succeeds:
  assumes "dl (values_base_url sid) = Inr fl" "rc fl = Inr df" "length df = 8"
    "list_ex is_text (snd (df ! 2))"
  shows "NoaaGhcnValues_collect_station_parameter dl rc sid p d log =
           (Inr (zip values_columns ((map snd (take 5 df))[2 := map lower_cell (snd (df ! 2))])),
            log @ [values_base_url sid])"
proof -
  from assms(3) obtain c0 c1 c2 c3 c4 c5 c6 c7 where df: "df = [c0, c1, c2, c3, c4, c5, c6, c7]"
    using length_8_conv by blast
  with assms(4) have "list_ex is_text (snd c2)" by simp
  then show ?thesis
    by (simp add: NoaaGhcnValues_collect_station_parameter_def Let_def assms(1,2) df
        set_columns_def iloc_columns_but_last_def values_columns_def loc_get_def
        series_str_lower_def loc_set_def)
qed

lemma sample_values_collect:
  "NoaaGhcnValues_collect_station_parameter (\<lambda>url. Inr ()) (\<lambda>fl. Inr sample_values_frame)
       ''GME00111464'' () () [] =
     (Inr [(Column STATION_ID, [Str ''GME00111464'', Str ''GME00111464'']),
           (Column DATE, [Num 19470101, Num 19470101]),
           (Column PARAMETER, [Str ''tmax'', Str ''prcp'']),
           (Column VALUE, [Num 12, Num 0]),
           (Column QUALITY, [NaN, NaN])],
      [values_base_url ''GME00111464''])"
  by (simp add: NoaaGhcnValues_collect_station_parameter_def Let_def sample_values_frame_def
      set_columns_def iloc_columns_but_last_def values_columns_def loc_get_def
      series_str_lower_def loc_set_def str_lower_def lower_char_def char_of_def bit_0)

text \<open>
  Claim C2. Whenever the value collector returns a frame for a station, the file was
  downloaded and parsed, it has eight columns, and the frame consists of its first five
  columns, in order, under the labels station id, date, parameter, value and quality
  (the parameter column lowercased); the three trailing columns are gone.
\<close>

theorem collect_first_five_columns:
  assumes "fst (NoaaGhcnValues_collect_station_parameter dl rc sid p d log) = Inr out"
  shows "\<exists>fl df. dl (values_base_url sid) = Inr fl \<and> rc fl = Inr df \<and> length df = 8
           \<and> map fst out =
                [Column STATION_ID, Column DATE, Column PARAMETER, Column VALUE, Column QUALITY]
           \<and> map snd out =
                [snd (df ! 0), snd (df ! 1), map lower_cell (snd (df ! 2)), snd (df ! 3),
                 snd (df ! 4)]"
proof -
  from collect_success [OF assms] obtain fl df where
    s: "dl (values_base_url sid) = Inr fl" "rc fl = Inr df" "length df = 8"
       "out = zip values_columns ((map snd (take 5 df))[2 := map lower_cell (snd (df ! 2))])"
    by (elim exE conjE) (rule that)
  from s(3) obtain c0 c1 c2 c3 c4 c5 c6 c7 where df: "df = [c0, c1, c2, c3, c4, c5, c6, c7]"
    using length_8_conv by blast
  have "map fst out =
          [Column STATION_ID, Column DATE, Column PARAMETER, Column VALUE, Column QUALITY]"
    by (simp add: s(4) df values_columns_def)
  moreover have "map snd out =
      [snd (df ! 0), snd (df ! 1), map lower_cell (snd (df ! 2)), snd (df ! 3), snd (df ! 4)]"
    by (simp add: s(4) df values_columns_def)
  ultimately show ?thesis
    by (intro exI [of _ fl] exI [of _ df] conjI s(1) s(2) s(3))
qed

theorem collect_first_five_columns_witness:
  "fst (NoaaGhcnValues_collect_station_parameter (\<lambda>url. Inr ()) (\<lambda>fl. Inr sample_values_frame)
          ''GME00111464'' () () []) =
     Inr [(Column STATION_ID, [Str ''GME00111464'', Str ''GME00111464'']),
          (Column DATE, [Num 19470101, Num 19470101]),
          (Column PARAMETER, [Str ''tmax'', Str ''prcp'']),
          (Column VALUE, [Num 12, Num 0]),
          (Column QUALITY, [NaN, NaN])]
   \<and> length sample_values_frame = 8"
proof -
  let ?out = "[(Column STATION_ID, [Str ''GME00111464'', Str ''GME00111464'']),
          (Column DATE, [Num 19470101, Num 19470101]),
          (Column PARAMETER, [Str ''tmax'', Str ''prcp'']),
          (Column VALUE, [Num 12, Num 0]),
          (Column QUALITY, [NaN, NaN])]"
  have v: "fst (NoaaGhcnValues_collect_station_parameter (\<lambda>url. Inr ())
             (\<lambda>fl. Inr sample_values_frame) ''GME00111464'' () () []) = Inr ?out"
    by (simp add: sample_values_collect)
  from collect_first_five_columns [OF v] v show ?thesis
    by auto
qed



section \<open>Properties of the parameter registry\<close>

lemma matches_upper: "matches (str_upper s) = matches s"
  by (rule ext) (simp add: matches_def str_upper_idem)

lemma matches_lower: "matches (str_lower s) = matches s"
  by (rule ext) (simp add: matches_def str_upper_lower)

lemma resolve_Inr:
  assumes "resolve reg res s = Inr e"
  shows "e \<in> set (reg res) \<and> matches s e"
proof -
  from assms have "find (matches s) (reg res) = Some e"
    by (simp add: resolve_def split: option.splits)
  then show ?thesis
    by (auto simp: find_Some_iff)
qed

lemma resolve_tmk:
  "resolve dwd_reference_registry DAILY ''TMK'' =
     Inr (\<lparr>canonical_name = ''TEMPERATURE_AIR_MEAN_200'', agency_code = ''tmk''\<rparr>, ''CLIMATE_SUMMARY'')
   \<and> resolve dwd_reference_registry DAILY ''tmk'' =
     Inr (\<lparr>canonical_name = ''TEMPERATURE_AIR_MEAN_200'', agency_code = ''tmk''\<rparr>, ''CLIMATE_SUMMARY'')"
  by (simp add: resolve_def matches_def str_upper_def upper_char_def char_of_def bit_0)

lemma resolve_prcp:
  "resolve ghcn_registry DAILY ''prcp'' =
     Inr (\<lparr>canonical_name = ''PRECIPITATION_HEIGHT'', agency_code = ''prcp''\<rparr>, ''daily'')"
  by (simp add: resolve_def matches_def str_upper_def upper_char_def char_of_def bit_0
      NoaaGhcnParameter_DAILY_def)

lemma resolve_matching:
  assumes "e \<in> set (reg res)" "matches s e"
  shows "\<exists>e'. resolve reg res s = Inr e' \<and> e' \<in> set (reg res) \<and> matches s e'"
proof -
  from assms have "find (matches s) (reg res) \<noteq> None"
    unfolding find_None_iff by blast
  then obtain e' where "find (matches s) (reg res) = Some e'" by blast
  then have r: "resolve reg res s = Inr e'" by (simp add: resolve_def)
  from resolve_Inr [OF r] r show ?thesis by blast
qed

lemma resolve_reference_codes:
  "map (resolve dwd_reference_registry DAILY) [''tmk'', ''txk'', ''tnk'', ''rsk'', ''rskf''] =
     map Inr (dwd_reference_registry DAILY)
   \<and> map (resolve dwd_reference_registry DAILY) [''TMK'', ''TXK'', ''TNK'', ''RSK'', ''RSKF''] =
     map Inr (dwd_reference_registry DAILY)"
  by (simp add: resolve_def matches_def str_upper_def upper_char_def char_of_def bit_0)

text \<open>
  Claim C4. Resolving the uppercase form and resolving the lowercase form of a string
  give the same result, which is also the result for the string itself. A valid string,
  one whose uppercase form equals the uppercased canonical name or agency code of an
  entry of the registry under the resolution, resolves in both forms to one and the same
  pair of the registry, and to that very entry when no other entry matches. A result is
  always an entry whose uppercased canonical name or agency code equals the uppercased
  string: the match is exact after case normalization.
\<close>

theorem resolve_case_insensitive:
  "resolve reg res (str_upper s) = resolve reg res (str_lower s)
     \<and> resolve reg res (str_upper s) = resolve reg res s
     \<and> (\<forall>p d. (p, d) \<in> set (reg res)
             \<and> (str_upper (canonical_name p) = str_upper s
                  \<or> str_upper (agency_code p) = str_upper s) \<longrightarrow>
           (\<exists>e. resolve reg res (str_upper s) = Inr e
                \<and> resolve reg res (str_lower s) = Inr e
                \<and> e \<in> set (reg res) \<and> matches s e
                \<and> ((\<forall>e' \<in> set (reg res). matches s e' \<longrightarrow> e' = (p, d)) \<longrightarrow> e = (p, d))))
     \<and> (\<forall>p d. resolve reg res s = Inr (p, d) \<longrightarrow>
           (p, d) \<in> set (reg res)
           \<and> (str_upper (canonical_name p) = str_upper s
                \<or> str_upper (agency_code p) = str_upper s))"
proof -
  have 1: "resolve reg res (str_upper s) = resolve reg res s"
    by (simp add: resolve_def matches_upper)
  have 2: "resolve reg res (str_lower s) = resolve reg res s"
    by (simp add: resolve_def matches_lower)
  have 3: "(p, d) \<in> set (reg res)
           \<and> (str_upper (canonical_name p) = str_upper s
                \<or> str_upper (agency_code p) = str_upper s)"
    if "resolve reg res s = Inr (p, d)" for p d
    using resolve_Inr [OF that] by (simp add: matches_def)
  have 4: "\<exists>e. resolve reg res (str_upper s) = Inr e
                \<and> resolve reg res (str_lower s) = Inr e
                \<and> e \<in> set (reg res) \<and> matches s e
                \<and> ((\<forall>e' \<in> set (reg res). matches s e' \<longrightarrow> e' = (p, d)) \<longrightarrow> e = (p, d))"
    if m: "(p, d) \<in> set (reg res)"
      "str_upper (canonical_name p) = str_upper s \<or> str_upper (agency_code p) = str_upper s"
    for p d
  proof -
    from m(2) have "matches s (p, d)" by (simp add: matches_def)
    from resolve_matching [where reg = reg and res = res, OF m(1) this] obtain e where
      e: "resolve reg res s = Inr e" "e \<in> set (reg res)" "matches s e"
      by blast
    from e(1) have u: "resolve reg res (str_upper s) = Inr e" by (simp only: 1)
    from e(1) have l: "resolve reg res (str_lower s) = Inr e" by (simp only: 2)
    have "(\<forall>e' \<in> set (reg res). matches s e' \<longrightarrow> e' = (p, d)) \<longrightarrow> e = (p, d)"
      using e(2,3) by blast
    with u l e(2,3) show ?thesis by blast
  qed
  have 12: "resolve reg res (str_upper s) = resolve reg res (str_lower s)"
    by (simp only: 1 2)
  have all4: "\<forall>p d. (p, d) \<in> set (reg res)
             \<and> (str_upper (canonical_name p) = str_upper s
                  \<or> str_upper (agency_code p) = str_upper s) \<longrightarrow>
           (\<exists>e. resolve reg res (str_upper s) = Inr e
                \<and> resolve reg res (str_lower s) = Inr e
                \<and> e \<in> set (reg res) \<and> matches s e
                \<and> ((\<forall>e' \<in> set (reg res). matches s e' \<longrightarrow> e' = (p, d)) \<longrightarrow> e = (p, d)))"
    using 4 by blast
  have all3: "\<forall>p d. resolve reg res s = Inr (p, d) \<longrightarrow>
           (p, d) \<in> set (reg res)
           \<and> (str_upper (canonical_name p) = str_upper s
                \<or> str_upper (agency_code p) = str_upper s)"
    using 3 by blast
  show ?thesis
    using 12 1 all4 all3 by (intro conjI)
qed

theorem resolve_case_insensitive_witness:
  "resolve dwd_reference_registry DAILY (str_upper ''rskf'') =
     Inr (\<lparr>canonical_name = ''PRECIPITATION_FORM'', agency_code = ''rskf''\<rparr>, ''CLIMATE_SUMMARY'')
   \<and> resolve dwd_reference_registry DAILY (str_lower ''rskf'') =
     Inr (\<lparr>canonical_name = ''PRECIPITATION_FORM'', agency_code = ''rskf''\<rparr>, ''CLIMATE_SUMMARY'')
   \<and> str_upper ''rskf'' = ''RSKF'' \<and> str_lower ''rskf'' = ''rskf''"
proof -
  let ?p = "\<lparr>canonical_name = ''PRECIPITATION_FORM'', agency_code = ''rskf''\<rparr>"
  let ?d = "''CLIMATE_SUMMARY''"
  have u: "str_upper ''rskf'' = ''RSKF''"
    by (simp add: str_upper_def upper_char_def char_of_def bit_0)
  have l: "str_lower ''rskf'' = ''rskf''"
    by (simp add: str_lower_def lower_char_def)
  have m: "(?p, ?d) \<in> set (dwd_reference_registry DAILY)
      \<and> (str_upper (canonical_name ?p) = str_upper ''rskf''
           \<or> str_upper (agency_code ?p) = str_upper ''rskf'')"
    by simp
  have q: "\<forall>e' \<in> set (dwd_reference_registry DAILY). matches ''rskf'' e' \<longrightarrow> e' = (?p, ?d)"
    by (simp add: matches_def str_upper_def upper_char_def char_of_def bit_0)
  from resolve_case_insensitive [of dwd_reference_registry DAILY "''rskf''"]
  have "\<forall>p d. (p, d) \<in> set (dwd_reference_registry DAILY)
             \<and> (str_upper (canonical_name p) = str_upper ''rskf''
                  \<or> str_upper (agency_code p) = str_upper ''rskf'') \<longrightarrow>
           (\<exists>e. resolve dwd_reference_registry DAILY (str_upper ''rskf'') = Inr e
                \<and> resolve dwd_reference_registry DAILY (str_lower ''rskf'') = Inr e
                \<and> e \<in> set (dwd_reference_registry DAILY) \<and> matches ''rskf'' e
                \<and> ((\<forall>e' \<in> set (dwd_reference_registry DAILY).
                        matches ''rskf'' e' \<longrightarrow> e' = (p, d)) \<longrightarrow> e = (p, d)))"
    by (elim conjE)
  from this [rule_format, OF m] q
  have "resolve dwd_reference_registry DAILY (str_upper ''rskf'') = Inr (?p, ?d)
      \<and> resolve dwd_reference_registry DAILY (str_lower ''rskf'') = Inr (?p, ?d)"
    by blast
  with u l show ?thesis by (intro conjI) blast+
qed

text \<open>
  Claim C7. A string that matches no entry of the registry under the given resolution,
  neither as canonical name nor as agency code after case normalization, makes the
  lookup fail with the "parameter not found" error; no pair is returned.
\<close>

theorem resolve_unknown_fails:
  assumes "\<forall>(p, d) \<in> set (reg res).
             str_upper (canonical_name p) \<noteq> str_upper s
             \<and> str_upper (agency_code p) \<noteq> str_upper s"
  shows "resolve reg res s = Inl LookupError \<and> (\<forall>pd. resolve reg res s \<noteq> Inr pd)"
proof -
  from assms have "\<forall>e \<in> set (reg res). \<not> matches s e"
    by (auto simp: matches_def)
  then have "find (matches s) (reg res) = None"
    by (simp add: find_None_iff)
  then show ?thesis by (simp add: resolve_def)
qed

theorem resolve_unknown_fails_witness:
  "resolve dwd_reference_registry DAILY ''xyz'' = Inl LookupError
     \<and> resolve dwd_reference_registry HOURLY ''tmk'' = Inl LookupError"
proof -
  have 1: "\<forall>(p, d) \<in> set (dwd_reference_registry DAILY).
             str_upper (canonical_name p) \<noteq> str_upper ''xyz''
             \<and> str_upper (agency_code p) \<noteq> str_upper ''xyz''"
    by (simp add: str_upper_def upper_char_def char_of_def bit_0)
  have 2: "\<forall>(p, d) \<in> set (dwd_reference_registry HOURLY).
             str_upper (canonical_name p) \<noteq> str_upper ''tmk''
             \<and> str_upper (agency_code p) \<noteq> str_upper ''tmk''"
    by simp
  from resolve_unknown_fails [where reg = dwd_reference_registry and res = DAILY
        and s = "''xyz''", OF 1]
    resolve_unknown_fails [where reg = dwd_reference_registry and res = HOURLY
        and s = "''tmk''", OF 2]
  show ?thesis
    by simp
qed

section \<open>Properties of the daily parameters\<close>

lemma distinct_snd_unique:
  assumes "distinct (map snd xs)" "(a, c) \<in> set xs" "(b, c) \<in> set xs"
  shows "a = b"
proof -
  from assms(1) have "inj_on snd (set xs)" by (simp add: distinct_map)
  from inj_onD [OF this _ assms(2,3)] show ?thesis by simp
qed

lemma DAILY_codes_distinct: "distinct (map snd NoaaGhcnParameter_DAILY)"
  by (simp add: NoaaGhcnParameter_DAILY_def)

text \<open>
  Claim C8. Within the daily parameters of GHCN the agency code is unique: the codes of
  the 203 members are pairwise distinct, so two members with distinct canonical names
  have distinct agency codes and no name is an alias of another.
\<close>

theorem NoaaGhcnParameter_DAILY_codes_unique:
  "distinct (map snd NoaaGhcnParameter_DAILY)
     \<and> length NoaaGhcnParameter_DAILY = 203
     \<and> (\<forall>(n1, c1) \<in> set NoaaGhcnParameter_DAILY. \<forall>(n2, c2) \<in> set NoaaGhcnParameter_DAILY.
           n1 \<noteq> n2 \<longrightarrow> c1 \<noteq> c2)"
proof -
  have "length NoaaGhcnParameter_DAILY = 203"
    by (simp add: NoaaGhcnParameter_DAILY_def)
  moreover have "\<forall>(n1, c1) \<in> set NoaaGhcnParameter_DAILY.
      \<forall>(n2, c2) \<in> set NoaaGhcnParameter_DAILY. n1 \<noteq> n2 \<longrightarrow> c1 \<noteq> c2"
    using distinct_snd_unique [OF DAILY_codes_distinct] by blast
  ultimately show ?thesis using DAILY_codes_distinct by simp
qed

theorem NoaaGhcnParameter_DAILY_codes_unique_witness:
  "(''SNOW_DEPTH_NEW'', ''snow'') \<in> set NoaaGhcnParameter_DAILY
     \<and> (''SNOW_DEPTH'', ''snwd'') \<in> set NoaaGhcnParameter_DAILY
     \<and> ''SNOW_DEPTH_NEW'' \<noteq> ''SNOW_DEPTH'' \<and> ''snow'' \<noteq> ''snwd''"
proof -
  have 1: "(''SNOW_DEPTH_NEW'', ''snow'') \<in> set NoaaGhcnParameter_DAILY"
    by (simp add: NoaaGhcnParameter_DAILY_def)
  have 2: "(''SNOW_DEPTH'', ''snwd'') \<in> set NoaaGhcnParameter_DAILY"
    by (simp add: NoaaGhcnParameter_DAILY_def)
  from NoaaGhcnParameter_DAILY_codes_unique 1 2 show ?thesis
    by fastforce
qed

section \<open>Properties of request construction\<close>

lemma ScalarRequestCore_init_stores:
  "stores_resolution_period (ScalarRequestCore_init reg supported)"
  by (auto simp: stores_resolution_period_def ScalarRequestCore_init_def
      split: sum.splits if_splits)

lemma ScalarRequestCore_init_inverted:
  assumes "e < s"
  shows "ScalarRequestCore_init reg supported ps res per (Some s) (Some e) hum td si log =
           (Inl ValidationError, log)"
  using assms by (simp add: ScalarRequestCore_init_def split: sum.splits)

lemma ghcn_request_prcp:
  "NoaaGhcnRequest_init (ScalarRequestCore_init ghcn_registry ghcn_supported)
       [''prcp''] None None True True True [] =
     (Inr \<lparr>parameter =
              [(\<lparr>canonical_name = ''PRECIPITATION_HEIGHT'', agency_code = ''prcp''\<rparr>, ''daily'')],
            resolution = DAILY, period = HISTORICAL, start_date = None, end_date = None,
            humanize = True, tidy = True, si_units = True\<rparr>, [])"
  by (simp add: NoaaGhcnRequest_init_def ScalarRequestCore_init_def ghcn_supported_def
      resolve_prcp)

text \<open>
  Claim C6. A request whose start date is strictly after its end date is not
  constructed: the constructor fails with the validation error, and the log of network
  calls is as it was, so no fetch was attempted. This holds for the base constructor
  with any registry, and so for the GHCN request.
\<close>

theorem inverted_date_range_fails:
  assumes "e < s"
  shows "ScalarRequestCore_init reg supported ps res per (Some s) (Some e) hum td si log =
           (Inl ValidationError, log)
     \<and> NoaaGhcnRequest_init (ScalarRequestCore_init ghcn_registry ghcn_supported)
           ps (Some s) (Some e) hum td si log = (Inl ValidationError, log)"
  using assms
  by (simp add: NoaaGhcnRequest_init_def ScalarRequestCore_init_inverted)

theorem inverted_date_range_fails_witness:
  "(1 :: int) < 2
     \<and> NoaaGhcnRequest_init (ScalarRequestCore_init ghcn_registry ghcn_supported)
           [''prcp''] (Some 2) (Some 1) True True True [] = (Inl ValidationError, [])"
  using inverted_date_range_fails [of 1 2 ghcn_registry ghcn_supported "[''prcp'']" DAILY
      HISTORICAL True True True "[]"]
  by simp

text \<open>
  Claim C10. Whatever arguments the constructor of \<open>NoaaGhcnRequest\<close> is given, a request
  that it constructs has the resolution daily and the period historical, for every base
  constructor that stores the resolution and the period handed to it: the constructor
  takes neither as an argument and always hands on these two values.
\<close>

theorem NoaaGhcnRequest_resolution_period:
  assumes "stores_resolution_period super_init"
    and "NoaaGhcnRequest_init super_init ps start end hum td si log = (Inr req, log')"
  shows "resolution req = DAILY \<and> period req = HISTORICAL"
  using assms
  unfolding stores_resolution_period_def NoaaGhcnRequest_init_def
  by blast

theorem NoaaGhcnRequest_resolution_period_witness:
  "stores_resolution_period (ScalarRequestCore_init ghcn_registry ghcn_supported)
     \<and> resolution (projr (fst (NoaaGhcnRequest_init
           (ScalarRequestCore_init ghcn_registry ghcn_supported)
           [''prcp''] None None True True True []))) = DAILY
     \<and> period (projr (fst (NoaaGhcnRequest_init
           (ScalarRequestCore_init ghcn_registry ghcn_supported)
           [''prcp''] None None True True True []))) = HISTORICAL"
  using NoaaGhcnRequest_resolution_period [OF ScalarRequestCore_init_stores ghcn_request_prcp]
    ScalarRequestCore_init_stores [of ghcn_registry ghcn_supported]
  by (simp add: ghcn_request_prcp)

section \<open>Properties of the reshaping\<close>















lemma sample_tidy_melt: "melt (pivot [''tmax'', ''prcp''] sample_tidy) = 
   [sample_tidy ! 1, sample_tidy ! 0, sample_tidy ! 2]"
  by (simp add: melt_def pivot_def Let_def sample_tidy_def row_key_def reading_at_def row_of_def
    map_filter_def)





end
